theory Spec2Isabelle
  imports Complex_Main
begin

section \<open>MusicXML generation in homr: numbering allocator\<close>

text \<open>
  The development embeds \<^verbatim>\<open>homr/music_xml_generator.py\<close>. Python objects that the
  generator mutates become explicit state that is passed in and returned.
\<close>

subsection \<open>ConversionState\<close>

text \<open>
  The class \<^verbatim>\<open>ConversionState\<close>. The two \<^verbatim>\<open>defaultdict\<close>s of stacks are maps whose
  missing keys read as the default value; \<^verbatim>\<open>_available_slur_numbers\<close> is one plain list,
  \<^verbatim>\<open>_available_tie_numbers\<close> is a \<^verbatim>\<open>defaultdict\<close> of lists, one per key.
\<close>

record ConversionState =
  beats :: int
  division :: int
  nominator :: rat
  tremolo_state :: string
  volta_number :: int
  last_volta_measure :: int
  open_slurs :: "(int \<times> int) \<rightharpoonup> int list"
  available_slur_numbers :: "int list"
  open_ties :: "(int \<times> string \<times> string) \<rightharpoonup> int list"
  available_tie_numbers :: "(int \<times> string \<times> string) \<rightharpoonup> int list"

text \<open>\<^verbatim>\<open>list(range(1, 16))\<close>.\<close>

definition range_1_16 :: "int list" where
  "range_1_16 = [1, 2, 3, 4, 5, 6, 7, 8, 9, 10, 11, 12, 13, 14, 15]"

text \<open>
  \<^verbatim>\<open>ConversionState.__init__\<close>. The constant \<^verbatim>\<open>constants.duration_of_quarter\<close> lives in
  a module that is not part of the sources at hand and is taken as a parameter.
\<close>

definition ConversionState_init :: "int \<Rightarrow> int \<Rightarrow> rat \<Rightarrow> ConversionState" where
  "ConversionState_init duration_of_quarter dv nom =
     \<lparr> beats = 4 * duration_of_quarter,
       division = dv,
       nominator = nom,
       tremolo_state = ''stop'',
       volta_number = 1,
       last_volta_measure = - 10,
       open_slurs = Map.empty,
       available_slur_numbers = range_1_16,
       open_ties = Map.empty,
       available_tie_numbers = Map.empty \<rparr>"

definition start_volta :: "ConversionState \<Rightarrow> int \<Rightarrow> int \<times> ConversionState" where
  "start_volta st measure_no =
     (let st' = (if measure_no = last_volta_measure st + 1
                 then st\<lparr>volta_number := volta_number st + 1\<rparr>
                 else st\<lparr>volta_number := 1\<rparr>)
      in (volta_number st', st'))"

definition stop_volta :: "ConversionState \<Rightarrow> int \<Rightarrow> int \<times> ConversionState" where
  "stop_volta st measure_no =
     (volta_number st, st\<lparr>last_volta_measure := measure_no\<rparr>)"

definition toggle_tremolo_state :: "ConversionState \<Rightarrow> string \<times> ConversionState" where
  "toggle_tremolo_state st =
     (let st' = (if tremolo_state st = ''start''
                 then st\<lparr>tremolo_state := ''stop''\<rparr>
                 else st\<lparr>tremolo_state := ''start''\<rparr>)
      in (tremolo_state st', st'))"

subsection \<open>Sorted insertion\<close>

text \<open>
  \<^verbatim>\<open>bisect.insort\<close> is \<^verbatim>\<open>insort_right\<close>: a binary search for the insertion point
  (\<^verbatim>\<open>lo = 0, hi = len(a)\<close>; while \<^verbatim>\<open>lo < hi\<close>: \<^verbatim>\<open>mid = (lo + hi) // 2\<close>; if
  \<^verbatim>\<open>x < a[mid]\<close> then \<^verbatim>\<open>hi = mid\<close> else \<^verbatim>\<open>lo = mid + 1\<close>), then \<^verbatim>\<open>a.insert(lo, x)\<close>.
\<close>

function bisect_right :: "int list \<Rightarrow> int \<Rightarrow> nat \<Rightarrow> nat \<Rightarrow> nat" where
  "bisect_right a x lo hi =
     (if lo < hi
      then (let mid = (lo + hi) div 2
            in if x < a ! mid then bisect_right a x lo mid
               else bisect_right a x (mid + 1) hi)
      else lo)"
  by pat_completeness auto
termination
  by (relation "measure (\<lambda>(a, x, lo, hi). hi - lo)") auto

declare bisect_right.simps [simp del]

definition insort_py :: "int list \<Rightarrow> int \<Rightarrow> int list" where
  "insort_py a x =
     (let lo = bisect_right a x 0 (length a) in take lo a @ [x] @ drop lo a)"

subsection \<open>Slur and tie numbers\<close>

text \<open>
  Reading \<^verbatim>\<open>self._open_slurs[key]\<close> on a missing key yields the empty list (and stores
  it); reading \<^verbatim>\<open>self._available_tie_numbers[key]\<close> on a missing key yields
  \<^verbatim>\<open>list(range(1, 16))\<close>.
\<close>

definition get_stack :: "('k \<rightharpoonup> int list) \<Rightarrow> 'k \<Rightarrow> int list" where
  "get_stack m key = (case m key of None \<Rightarrow> [] | Some s \<Rightarrow> s)"

definition get_available :: "('k \<rightharpoonup> int list) \<Rightarrow> 'k \<Rightarrow> int list" where
  "get_available m key = (case m key of None \<Rightarrow> range_1_16 | Some s \<Rightarrow> s)"

definition start_slur :: "ConversionState \<Rightarrow> int \<Rightarrow> int \<Rightarrow> int \<times> ConversionState" where
  "start_slur st staff voice =
     (let key = (staff, voice);
          stack = get_stack (open_slurs st) key
      in case available_slur_numbers st of
           [] \<Rightarrow>
             (let number = (if length stack > 0 then last stack else 6)
              in (number, st\<lparr>open_slurs := (open_slurs st)(key \<mapsto> stack @ [number])\<rparr>))
         | n # rest \<Rightarrow>
             (n, st\<lparr>available_slur_numbers := rest,
                    open_slurs := (open_slurs st)(key \<mapsto> stack @ [n])\<rparr>))"

definition release_slur_number :: "ConversionState \<Rightarrow> int \<times> int \<Rightarrow> int \<Rightarrow> ConversionState" where
  "release_slur_number st key number =
     (if 1 \<le> number \<and> number \<le> 6 \<and> number \<notin> set (available_slur_numbers st)
      then st\<lparr>available_slur_numbers := insort_py (available_slur_numbers st) number\<rparr>
      else st)"

definition stop_slur :: "ConversionState \<Rightarrow> int \<Rightarrow> int \<Rightarrow> int option \<times> ConversionState" where
  "stop_slur st staff voice =
     (let key = (staff, voice)
      in case open_slurs st key of
           None \<Rightarrow> (None, st)
         | Some stack \<Rightarrow>
             (if length stack = 0 then (None, st)
              else (let number = last stack;
                        st1 = st\<lparr>open_slurs := (open_slurs st)(key \<mapsto> butlast stack)\<rparr>
                    in (Some number, release_slur_number st1 key number))))"

definition start_tie ::
  "ConversionState \<Rightarrow> int \<Rightarrow> string \<Rightarrow> string \<Rightarrow> int \<times> ConversionState" where
  "start_tie st staff pitch lift =
     (let key = (staff, pitch, lift);
          available = get_available (available_tie_numbers st) key;
          stack = get_stack (open_ties st) key
      in case available of
           [] \<Rightarrow>
             (let number = (if length stack > 0 then last stack else 6)
              in (number, st\<lparr>available_tie_numbers := (available_tie_numbers st)(key \<mapsto> []),
                             open_ties := (open_ties st)(key \<mapsto> stack @ [number])\<rparr>))
         | n # rest \<Rightarrow>
             (n, st\<lparr>available_tie_numbers := (available_tie_numbers st)(key \<mapsto> rest),
                    open_ties := (open_ties st)(key \<mapsto> stack @ [n])\<rparr>))"

definition release_tie_number ::
  "ConversionState \<Rightarrow> int \<times> string \<times> string \<Rightarrow> int \<Rightarrow> ConversionState" where
  "release_tie_number st key number =
     (let available = get_available (available_tie_numbers st) key
      in if 1 \<le> number \<and> number \<le> 6 \<and> number \<notin> set available
         then st\<lparr>available_tie_numbers :=
                   (available_tie_numbers st)(key \<mapsto> insort_py available number)\<rparr>
         else st\<lparr>available_tie_numbers := (available_tie_numbers st)(key \<mapsto> available)\<rparr>)"

definition stop_tie ::
  "ConversionState \<Rightarrow> int \<Rightarrow> string \<Rightarrow> string \<Rightarrow> int option \<times> ConversionState" where
  "stop_tie st staff pitch lift =
     (let key = (staff, pitch, lift)
      in case open_ties st key of
           None \<Rightarrow> (None, st)
         | Some stack \<Rightarrow>
             (if length stack = 0 then (None, st)
              else (let number = last stack;
                        st1 = st\<lparr>open_ties := (open_ties st)(key \<mapsto> butlast stack)\<rparr>
                    in (Some number, release_tie_number st1 key number))))"

text \<open>Running an operation several times on one key, keeping the numbers returned.\<close>

fun start_slurs :: "nat \<Rightarrow> ConversionState \<Rightarrow> int \<Rightarrow> int \<Rightarrow> int list \<times> ConversionState" where
  "start_slurs 0 st staff voice = ([], st)"
| "start_slurs (Suc k) st staff voice =
     (let (n, st1) = start_slur st staff voice;
          (ns, st2) = start_slurs k st1 staff voice
      in (n # ns, st2))"

fun start_ties ::
  "nat \<Rightarrow> ConversionState \<Rightarrow> int \<Rightarrow> string \<Rightarrow> string \<Rightarrow> int list \<times> ConversionState" where
  "start_ties 0 st staff pitch lift = ([], st)"
| "start_ties (Suc k) st staff pitch lift =
     (let (n, st1) = start_tie st staff pitch lift;
          (ns, st2) = start_ties k st1 staff pitch lift
      in (n # ns, st2))"


section \<open>Symbols and chords\<close>

subsection \<open>String tests\<close>

text \<open>\<^verbatim>\<open>s.startswith(p)\<close>, \<^verbatim>\<open>p in s\<close> and \<^verbatim>\<open>s.endswith(p)\<close> on strings.\<close>

fun startswith :: "string \<Rightarrow> string \<Rightarrow> bool" where
  "startswith s [] = True"
| "startswith [] (p # ps) = False"
| "startswith (c # cs) (p # ps) = (c = p \<and> startswith cs ps)"

fun contains :: "string \<Rightarrow> string \<Rightarrow> bool" where
  "contains [] p = (p = [])"
| "contains (c # cs) p = (startswith (c # cs) p \<or> contains cs p)"

definition endswith :: "string \<Rightarrow> string \<Rightarrow> bool" where
  "endswith s p = startswith (rev s) (rev p)"

subsection \<open>EncodedSymbol\<close>

text \<open>
  \<^verbatim>\<open>EncodedSymbol\<close> comes from \<^verbatim>\<open>homr.transformer.vocabulary\<close>, which is not part of
  the sources at hand; the generator reads the five token fields and calls
  \<^verbatim>\<open>get_duration()\<close>, whose result has the attributes \<^verbatim>\<open>fraction\<close>, \<^verbatim>\<open>kern\<close>,
  \<^verbatim>\<open>dots\<close>, \<^verbatim>\<open>actual_notes\<close> and \<^verbatim>\<open>normal_notes\<close>. How the duration is computed from
  the rhythm token is not visible, so each symbol carries the value that
  \<^verbatim>\<open>get_duration()\<close> returns for it. \<^verbatim>\<open>ident\<close> is the identity of the Python object
  (\<^verbatim>\<open>id(symbol)\<close>): the beaming pass writes an attribute on the object itself.
  \<^verbatim>\<open>Fraction\<close> is \<^typ>\<open>rat\<close>.
\<close>

record SymbolDuration =
  fraction :: rat
  kern :: int
  dots :: nat
  actual_notes :: int
  normal_notes :: int

record EncodedSymbol =
  ident :: nat
  rhythm :: string
  pitch :: string
  lift :: string
  articulation :: string
  position :: string
  get_duration :: SymbolDuration

definition numerator :: "rat \<Rightarrow> int" where
  "numerator r = fst (quotient_of r)"

definition denominator :: "rat \<Rightarrow> int" where
  "denominator r = snd (quotient_of r)"

definition is_note_or_rest :: "EncodedSymbol \<Rightarrow> bool" where
  "is_note_or_rest s = (startswith (rhythm s) ''note'' \<or> startswith (rhythm s) ''rest'')"

subsection \<open>SymbolChord\<close>

record SymbolChord =
  symbols :: "EncodedSymbol list"
  tuplet_mark :: string

definition is_barline :: "SymbolChord \<Rightarrow> bool" where
  "is_barline c =
     (if length (symbols c) = 0 then False
      else (let first_rhythm = rhythm (hd (symbols c))
            in contains first_rhythm ''barline'' \<or> contains first_rhythm ''repeat''))"

text \<open>\<^verbatim>\<open>SymbolChord.get_duration\<close>: the minimum over the note and rest members.\<close>

definition chord_get_duration :: "SymbolChord \<Rightarrow> rat" where
  "chord_get_duration c =
     (let notes_rests = map (\<lambda>s. fraction (get_duration s)) (filter is_note_or_rest (symbols c))
      in if length notes_rests = 0 then 0 else min_list notes_rests)"

definition into_positions :: "SymbolChord \<Rightarrow> SymbolChord list" where
  "into_positions c =
     (let upper = filter (\<lambda>s. position s = ''upper'') (symbols c);
          lower = filter (\<lambda>s. position s \<noteq> ''upper'') (symbols c);
          lower_is_only_rest = list_all (\<lambda>s. startswith (rhythm s) ''rest'') lower;
          c_upper = \<lparr>symbols = upper, tuplet_mark = tuplet_mark c\<rparr>;
          c_lower = \<lparr>symbols = lower, tuplet_mark = tuplet_mark c\<rparr>;
          chords = (if lower_is_only_rest then [c_lower, c_upper] else [c_upper, c_lower])
      in filter (\<lambda>chord. length (symbols chord) > 0) chords)"

text \<open>
  \<^verbatim>\<open>group_into_chords\<close> wraps each group of \<^verbatim>\<open>sort_token_chords\<close> (a function of the
  vocabulary module, taken as a parameter) into a chord with an empty tuplet mark.
\<close>

definition group_into_chords ::
  "(EncodedSymbol list \<Rightarrow> EncodedSymbol list list) \<Rightarrow> EncodedSymbol list \<Rightarrow> SymbolChord list" where
  "group_into_chords sort_token_chords voice =
     map (\<lambda>s. \<lparr>symbols = s, tuplet_mark = ''''\<rparr>) (sort_token_chords voice)"

section \<open>Tuplet annotation\<close>

text \<open>The inner loop of \<^verbatim>\<open>add_tuplet_start_stop\<close> that computes \<^verbatim>\<open>is_tuplet\<close>.\<close>

definition chord_is_tuplet :: "SymbolChord \<Rightarrow> bool" where
  "chord_is_tuplet grp =
     list_ex (\<lambda>s. is_note_or_rest s \<and>
                  normal_notes (get_duration s) \<noteq> actual_notes (get_duration s))
       (symbols grp)"

fun tuplet_loop :: "bool \<Rightarrow> SymbolChord list \<Rightarrow> SymbolChord list" where
  "tuplet_loop has_tuplet_mark [] = []"
| "tuplet_loop has_tuplet_mark (grp # groups) =
     (let is_tuplet = chord_is_tuplet grp
      in if is_tuplet \<noteq> has_tuplet_mark
         then (if has_tuplet_mark then grp\<lparr>tuplet_mark := ''stop''\<rparr>
               else grp\<lparr>tuplet_mark := ''start''\<rparr>) # tuplet_loop is_tuplet groups
         else grp # tuplet_loop has_tuplet_mark groups)"

definition add_tuplet_start_stop :: "SymbolChord list \<Rightarrow> SymbolChord list" where
  "add_tuplet_start_stop groups = tuplet_loop False groups"

section \<open>Timing analysis\<close>

text \<open>
  The local \<^verbatim>\<open>lcm\<close> of \<^verbatim>\<open>find_common_division\<close>: \<^verbatim>\<open>abs(a * b) // math.gcd(a, b)\<close>. Both
  arguments are denominators of fractions or earlier results and hence positive, so the
  division by zero of the Python code does not arise.
\<close>

definition lcm_py :: "int \<Rightarrow> int \<Rightarrow> int" where
  "lcm_py a b = \<bar>a * b\<bar> div gcd a b"

definition find_common_division :: "rat list \<Rightarrow> int" where
  "find_common_division durations =
     (let denominators = map denominator (filter (\<lambda>d. d > 0) durations)
      in case denominators of
           [] \<Rightarrow> 1
         | d0 # ds \<Rightarrow> foldl lcm_py d0 ds)"

text \<open>
  The loop of \<^verbatim>\<open>find_division_and_time_signature_nominator\<close> over the chords; the state
  is \<^verbatim>\<open>(durations, duration_in_measure, measure_duration)\<close>.
\<close>

fun timing_loop ::
  "SymbolChord list \<Rightarrow> rat list \<times> rat \<times> rat list \<Rightarrow> rat list \<times> rat \<times> rat list" where
  "timing_loop [] acc = acc"
| "timing_loop (chord # voice) (durations, duration_in_measure, measure_duration) =
     (if is_barline chord \<and> duration_in_measure > 0
      then timing_loop voice (durations, 0, measure_duration @ [duration_in_measure])
      else (let duration = chord_get_duration chord
            in if duration > 0
               then timing_loop voice
                      (durations @ [duration], duration_in_measure + duration, measure_duration)
               else timing_loop voice (durations, duration_in_measure, measure_duration)))"

text \<open>
  \<^verbatim>\<open>np.median\<close> of a non-empty list: the middle element of the sorted list, or the mean
  of the two middle elements.
\<close>

definition median :: "rat list \<Rightarrow> rat" where
  "median xs =
     (let s = sort xs; n = length s
      in if n mod 2 = 1 then s ! (n div 2)
         else (s ! (n div 2 - 1) + s ! (n div 2)) / 2)"


definition find_division_and_time_signature_nominator :: "SymbolChord list \<Rightarrow> int \<times> rat" where
  "find_division_and_time_signature_nominator voice =
     (let (durations, duration_in_measure, measure_duration) = timing_loop voice ([1 / 4], 0, []);
          measure_duration = (if duration_in_measure > 0
                              then measure_duration @ [duration_in_measure]
                              else measure_duration)
      in if length measure_duration = 0 then (find_common_division durations, 1)
         else (find_common_division durations, median measure_duration))"

section \<open>Beaming\<close>

text \<open>
  The beaming pass sets the attribute \<^verbatim>\<open>beam\<close> on symbol objects. The attribute is kept
  in a table from object identities to values; an object without the attribute maps to
  \<^term>\<open>None\<close>.
\<close>

type_synonym beams = "nat \<Rightarrow> string option"

definition is_beamable_note :: "EncodedSymbol \<Rightarrow> bool" where
  "is_beamable_note symbol =
     (if \<not> startswith (rhythm symbol) ''note'' then False
      else if contains (rhythm symbol) ''G'' then False
      else (let duration = get_duration symbol
            in if fraction duration \<le> 0 then False
               else fraction duration < 1 / 4))"

definition finalize_pending_beam :: "EncodedSymbol option \<Rightarrow> nat \<Rightarrow> beams \<Rightarrow> beams" where
  "finalize_pending_beam pending run_length b =
     (case pending of
        None \<Rightarrow> b
      | Some p \<Rightarrow> if run_length < 2 then b else b(ident p \<mapsto> ''end''))"

text \<open>
  The loop over \<^verbatim>\<open>staff_chord.symbols\<close>, which stops at the first beamable note; it
  returns \<^verbatim>\<open>(candidate, has_note_or_rest, has_rest)\<close>.
\<close>

fun scan_symbols ::
  "EncodedSymbol list \<Rightarrow> bool \<Rightarrow> bool \<Rightarrow> EncodedSymbol option \<times> bool \<times> bool" where
  "scan_symbols [] has_note_or_rest has_rest = (None, has_note_or_rest, has_rest)"
| "scan_symbols (symbol # rest) has_note_or_rest has_rest =
     (let (hnr, hr) = (if startswith (rhythm symbol) ''rest'' then (True, True)
                       else if startswith (rhythm symbol) ''note'' then (True, has_rest)
                       else (has_note_or_rest, has_rest))
      in if is_beamable_note symbol then (Some symbol, hnr, hr)
         else scan_symbols rest hnr hr)"

definition find_staff_chord :: "string \<Rightarrow> SymbolChord \<Rightarrow> SymbolChord option" where
  "find_staff_chord staff_position grp =
     find (\<lambda>chord. symbols chord \<noteq> [] \<and> position (hd (symbols chord)) = staff_position)
       (into_positions grp)"

text \<open>One iteration of the loop over the groups; the state is \<^verbatim>\<open>(pending, run_length)\<close> and the table.\<close>

definition beam_step ::
  "string \<Rightarrow> SymbolChord \<Rightarrow> EncodedSymbol option \<times> nat \<times> beams \<Rightarrow> EncodedSymbol option \<times> nat \<times> beams" where
  "beam_step staff_position grp state =
     (case state of (pending, run_length, b) \<Rightarrow>
        if is_barline grp then (None, 0, finalize_pending_beam pending run_length b)
        else (case find_staff_chord staff_position grp of
                None \<Rightarrow> (None, 0, finalize_pending_beam pending run_length b)
              | Some staff_chord \<Rightarrow>
                  (let (found, has_note_or_rest, has_rest) =
                         scan_symbols (symbols staff_chord) False False;
                       candidate = (if has_rest then None else found)
                   in case candidate of
                        None \<Rightarrow>
                          if has_note_or_rest
                          then (None, 0, finalize_pending_beam pending run_length b)
                          else (pending, run_length, b)
                      | Some c \<Rightarrow>
                          (case pending of
                             None \<Rightarrow> (Some c, 1, b)
                           | Some p \<Rightarrow>
                               (Some c, run_length + 1,
                                b(ident p \<mapsto> (if run_length = 1 then ''begin'' else ''continue'')))))))"

definition beam_pass :: "string \<Rightarrow> SymbolChord list \<Rightarrow> beams \<Rightarrow> beams" where
  "beam_pass staff_position groups b =
     (case fold (beam_step staff_position) groups (None, 0, b) of
        (pending, run_length, b') \<Rightarrow> finalize_pending_beam pending run_length b')"

definition all_symbols :: "SymbolChord list \<Rightarrow> EncodedSymbol list" where
  "all_symbols groups = concat (map symbols groups)"

definition apply_beaming :: "SymbolChord list \<Rightarrow> beams \<Rightarrow> beams" where
  "apply_beaming groups b =
     (let cleared = (\<lambda>i. if i \<in> set (map ident (all_symbols groups)) then None else b i)
      in beam_pass ''lower'' groups (beam_pass ''upper'' groups cleared))"

section \<open>Reference descriptions and example inputs\<close>

subsection \<open>The tuplet law as a description of each chord\<close>

text \<open>
  What the tuplet law expects of the chord at one index: \<^verbatim>\<open>start\<close> when the chord is a
  tuplet chord and its predecessor is not (or there is none), \<^verbatim>\<open>stop\<close> when it is not a
  tuplet chord and its predecessor is one, and no change otherwise.
\<close>

definition spec_prev_is_tuplet :: "SymbolChord list \<Rightarrow> nat \<Rightarrow> bool" where
  "spec_prev_is_tuplet groups i = (0 < i \<and> chord_is_tuplet (groups ! (i - 1)))"

definition spec_tuplet_mark :: "bool \<Rightarrow> SymbolChord \<Rightarrow> SymbolChord" where
  "spec_tuplet_mark before g =
     (if chord_is_tuplet g \<and> \<not> before then g\<lparr>tuplet_mark := ''start''\<rparr>
      else if \<not> chord_is_tuplet g \<and> before then g\<lparr>tuplet_mark := ''stop''\<rparr>
      else g)"

subsection \<open>Example symbols\<close>

text \<open>
  Symbols as the token lines of the tests describe them (rhythm, pitch, lift, articulation,
  position), with the duration that belongs to the rhythm token.
\<close>

definition plain :: "rat \<Rightarrow> int \<Rightarrow> nat \<Rightarrow> SymbolDuration" where
  "plain f k d = \<lparr>fraction = f, kern = k, dots = d, actual_notes = 1, normal_notes = 1\<rparr>"

definition triplet :: "rat \<Rightarrow> int \<Rightarrow> SymbolDuration" where
  "triplet f k = \<lparr>fraction = f, kern = k, dots = 0, actual_notes = 3, normal_notes = 2\<rparr>"

definition sym ::
  "nat \<Rightarrow> string \<Rightarrow> string \<Rightarrow> string \<Rightarrow> string \<Rightarrow> string \<Rightarrow> SymbolDuration \<Rightarrow> EncodedSymbol" where
  "sym i r p l a pos d =
     \<lparr>ident = i, rhythm = r, pitch = p, lift = l, articulation = a, position = pos,
      get_duration = d\<rparr>"

definition chord :: "EncodedSymbol list \<Rightarrow> SymbolChord" where
  "chord ss = \<lparr>symbols = ss, tuplet_mark = ''''\<rparr>"

definition barline_chord :: "nat \<Rightarrow> SymbolChord" where
  "barline_chord i = chord [sym i ''barline'' ''.'' ''.'' ''.'' ''.'' (plain 0 0 0)]"

text \<open>An eighth note, three triplet eighths, a quarter note, a barline.\<close>

definition tuplet_example :: "SymbolChord list" where
  "tuplet_example =
     [chord [sym 0 ''note_8'' ''C4'' ''_'' ''_'' ''upper'' (plain (1 / 8) 8 0)],
      chord [sym 1 ''note_12'' ''D4'' ''_'' ''_'' ''upper'' (triplet (1 / 12) 8)],
      chord [sym 2 ''note_12'' ''E4'' ''_'' ''_'' ''upper'' (triplet (1 / 12) 8)],
      chord [sym 3 ''note_12'' ''F4'' ''_'' ''_'' ''upper'' (triplet (1 / 12) 8)],
      chord [sym 4 ''note_4'' ''G4'' ''_'' ''_'' ''upper'' (plain (1 / 4) 4 0)],
      barline_chord 5]"






subsection \<open>What one beaming step does with a chord\<close>

text \<open>
  Three ways a chord can fall in the loop body of \<^verbatim>\<open>apply_beaming\<close> at one staff position,
  read off the branches of the code: the chord flushes and resets the run
  (\<open>beam_breaks\<close>), it supplies the next candidate (\<open>beam_candidate\<close>), or it does
  neither and is passed over.
\<close>

definition beam_breaks :: "string \<Rightarrow> SymbolChord \<Rightarrow> bool" where
  "beam_breaks staff_position grp =
     (is_barline grp \<or>
      (case find_staff_chord staff_position grp of
         None \<Rightarrow> True
       | Some staff_chord \<Rightarrow>
           (case scan_symbols (symbols staff_chord) False False of
              (found, has_note_or_rest, has_rest) \<Rightarrow>
                (has_rest \<or> found = None) \<and> has_note_or_rest)))"

definition beam_candidate :: "string \<Rightarrow> SymbolChord \<Rightarrow> EncodedSymbol option" where
  "beam_candidate staff_position grp =
     (if is_barline grp then None
      else (case find_staff_chord staff_position grp of
              None \<Rightarrow> None
            | Some staff_chord \<Rightarrow>
                (case scan_symbols (symbols staff_chord) False False of
                   (found, has_note_or_rest, has_rest) \<Rightarrow>
                     if has_rest then None else found)))"



subsection \<open>Example parts for the beaming pass\<close>

definition eighth :: "nat \<Rightarrow> string \<Rightarrow> EncodedSymbol" where
  "eighth i p = sym i ''note_8'' p ''_'' ''_'' ''upper'' (plain (1 / 8) 8 0)"

definition quarter :: "nat \<Rightarrow> string \<Rightarrow> EncodedSymbol" where
  "quarter i p = sym i ''note_4'' p ''_'' ''_'' ''upper'' (plain (1 / 4) 4 0)"

definition clef_chord :: "nat \<Rightarrow> SymbolChord" where
  "clef_chord i = chord [sym i ''clef_F4'' ''_'' ''_'' ''_'' ''upper'' (plain 0 0 0)]"





section \<open>Document nodes\<close>

text \<open>
  The generator builds the document with the classes of the \<^verbatim>\<open>musicxml\<close> package. Of
  that package it uses the creation of a node (with keyword attributes and an optional
  \<^verbatim>\<open>value_\<close>), \<^verbatim>\<open>add_child\<close> and the queries for the children of a node. A node is
  its class name, its attributes, its value and its children in the order in which they
  were added.
\<close>

datatype xval = IntV int | StrV string

datatype XMLElement =
  XMLElement (tag: string) (attrs: "(string \<times> xval) list") (xvalue: "xval option")
    (children: "XMLElement list")

definition node :: "string \<Rightarrow> XMLElement" where
  "node t = XMLElement t [] None []"

definition node_value :: "string \<Rightarrow> xval \<Rightarrow> XMLElement" where
  "node_value t v = XMLElement t [] (Some v) []"

definition node_attrs :: "string \<Rightarrow> (string \<times> xval) list \<Rightarrow> XMLElement" where
  "node_attrs t as = XMLElement t as None []"

definition add_child :: "XMLElement \<Rightarrow> XMLElement \<Rightarrow> XMLElement" where
  "add_child parent c =
     XMLElement (tag parent) (attrs parent) (xvalue parent) (children parent @ [c])"

definition add_children :: "XMLElement \<Rightarrow> XMLElement list \<Rightarrow> XMLElement" where
  "add_children parent cs = fold (\<lambda>c p. add_child p c) cs parent"

definition find_child_of_type :: "XMLElement \<Rightarrow> string \<Rightarrow> XMLElement option" where
  "find_child_of_type n child_type = find (\<lambda>c. tag c = child_type) (children n)"

definition get_children_of_type :: "XMLElement \<Rightarrow> string \<Rightarrow> XMLElement list" where
  "get_children_of_type n child_type = filter (\<lambda>c. tag c = child_type) (children n)"

subsection \<open>Exceptions and Python built-ins\<close>

datatype error = ValueError | KeyError | IndexError

definition bind_err :: "error + 'a \<Rightarrow> ('a \<Rightarrow> error + 'b) \<Rightarrow> error + 'b" where
  "bind_err r f = (case r of Inl e \<Rightarrow> Inl e | Inr x \<Rightarrow> f x)"

fun fold_err :: "('a \<Rightarrow> 'b \<Rightarrow> error + 'b) \<Rightarrow> 'a list \<Rightarrow> 'b \<Rightarrow> error + 'b" where
  "fold_err f [] acc = Inr acc"
| "fold_err f (x # xs) acc = (case f x acc of Inl e \<Rightarrow> Inl e | Inr acc' \<Rightarrow> fold_err f xs acc')"

text \<open>\<^verbatim>\<open>s.split(c)\<close> for a one-character separator.\<close>

fun split_on :: "char \<Rightarrow> string \<Rightarrow> string list" where
  "split_on c [] = [[]]"
| "split_on c (x # xs) =
     (if x = c then [] # split_on c xs
      else (case split_on c xs of [] \<Rightarrow> [[x]] | w # ws \<Rightarrow> (x # w) # ws))"

fun join_with :: "string \<Rightarrow> string list \<Rightarrow> string" where
  "join_with sep [] = []"
| "join_with sep [w] = w"
| "join_with sep (w # v # ws) = w @ sep @ join_with sep (v # ws)"

text \<open>\<^verbatim>\<open>s[i]\<close> on a string or list; out of range raises \<^verbatim>\<open>IndexError\<close>.\<close>

definition index_at :: "'a list \<Rightarrow> nat \<Rightarrow> error + 'a" where
  "index_at xs i = (if i < length xs then Inr (xs ! i) else Inl IndexError)"

text \<open>\<^verbatim>\<open>str(n)\<close> for an integer.\<close>

function str_nat :: "nat \<Rightarrow> string" where
  "str_nat n =
     (if n < 10 then [''0123456789'' ! n]
      else str_nat (n div 10) @ [''0123456789'' ! (n mod 10)])"
  by pat_completeness auto
termination
  by (relation "measure id") auto

declare str_nat.simps [simp del]

definition str_int :: "int \<Rightarrow> string" where
  "str_int i = (if i < 0 then CHR ''-'' # str_nat (nat (- i)) else str_nat (nat i))"

text \<open>
  \<^verbatim>\<open>int(s)\<close> for a string: an optional sign followed by decimal digits. Python also
  accepts surrounding white space and underscores between digits; the tokens of the
  vocabulary hold neither, and such strings are a \<^verbatim>\<open>ValueError\<close> here.
\<close>

definition digit_of :: "char \<Rightarrow> nat option" where
  "digit_of c =
     (let n = (of_char c :: nat) in if 48 \<le> n \<and> n \<le> 57 then Some (n - 48) else None)"

fun digits_value :: "string \<Rightarrow> nat \<Rightarrow> nat option" where
  "digits_value [] acc = Some acc"
| "digits_value (c # cs) acc =
     (case digit_of c of None \<Rightarrow> None | Some d \<Rightarrow> digits_value cs (10 * acc + d))"

definition py_int :: "string \<Rightarrow> error + int" where
  "py_int s =
     (let body = (case s of [] \<Rightarrow> []
                  | c # cs \<Rightarrow> if c = CHR ''-'' \<or> c = CHR ''+'' then cs else s);
          negative = (case s of [] \<Rightarrow> False | c # cs \<Rightarrow> c = CHR ''-'')
      in if body = [] then Inl ValueError
         else (case digits_value body 0 of
                 None \<Rightarrow> Inl ValueError
               | Some n \<Rightarrow> Inr (if negative then - int n else int n)))"

text \<open>\<^verbatim>\<open>int(x)\<close> for a \<^verbatim>\<open>Fraction\<close>: truncation towards zero.\<close>

definition py_trunc :: "rat \<Rightarrow> int" where
  "py_trunc r = (if 0 \<le> r then \<lfloor>r\<rfloor> else \<lceil>r\<rceil>)"

text \<open>\<^verbatim>\<open>str(v)\<close> for the value of a node.\<close>

definition xval_str :: "xval option \<Rightarrow> string" where
  "xval_str v = (case v of None \<Rightarrow> ''None'' | Some (IntV i) \<Rightarrow> str_int i | Some (StrV s) \<Rightarrow> s)"

subsection \<open>Constants of the vocabulary and lookup tables\<close>

text \<open>
  Modelled from the spec: the constants \<^verbatim>\<open>empty\<close> and \<^verbatim>\<open>nonote\<close> of
  \<^verbatim>\<open>homr.transformer.vocabulary\<close>, a module that is not part of the sources at hand. The
  spec describes them as the "none" and "invalid" values of a field; the token lines of the
  tests write them as an underscore and a dot.
\<close>

definition empty_token :: string where
  "empty_token = ''_''"

definition nonote :: string where
  "nonote = ''.''"

definition LIFT_TO_ALTER :: "string \<rightharpoonup> int" where
  "LIFT_TO_ALTER = map_of [(''N'', 0), (''#'', 1), (''##'', 2), (''b'', - 1), (''bb'', - 2)]"

definition DURATION_NAMES :: "int \<rightharpoonup> string" where
  "DURATION_NAMES =
     map_of [(0, ''breve''), (1, ''whole''), (2, ''half''), (4, ''quarter''), (8, ''eighth''),
             (16, ''16th''), (32, ''32nd''), (64, ''64th''), (128, ''128th'')]"

definition get_staff :: "EncodedSymbol \<Rightarrow> int" where
  "get_staff symbol = (if position symbol = ''lower'' then 2 else 1)"

section \<open>Articulations\<close>

text \<open>
  The key of a tie: \<^verbatim>\<open>(pitch_key, lift)\<close> read from the pitch child of the note, when
  the note has a pitch with a step and an octave.
\<close>

definition tie_key :: "XMLElement \<Rightarrow> (string \<times> string) option" where
  "tie_key note =
     (case find_child_of_type note ''XMLPitch'' of
        None \<Rightarrow> None
      | Some pitch_node \<Rightarrow>
          (case find_child_of_type pitch_node ''XMLStep'' of
             None \<Rightarrow> None
           | Some step \<Rightarrow>
               (case find_child_of_type pitch_node ''XMLOctave'' of
                  None \<Rightarrow> None
                | Some octave \<Rightarrow>
                    (let pitch_key = xval_str (xvalue step) @ xval_str (xvalue octave);
                         lft = (case find_child_of_type pitch_node ''XMLAlter'' of
                                  None \<Rightarrow> ''0''
                                | Some alter \<Rightarrow> xval_str (xvalue alter))
                     in Some (pitch_key, lft)))))"

text \<open>
  One iteration of the loop of \<^verbatim>\<open>build_articulations\<close> over the tags. The state is the
  notations node, the two lists \<^verbatim>\<open>xml_articulations\<close> and \<^verbatim>\<open>xml_ornaments\<close>, and the
  conversion state. The branches follow the \<^verbatim>\<open>elif\<close> chain; its second tests for
  \<^verbatim>\<open>arpeggiate\<close> and \<^verbatim>\<open>fermata\<close> can never be reached and are left out.
\<close>

type_synonym art_state = "XMLElement \<times> XMLElement list \<times> XMLElement list \<times> ConversionState"

definition articulation_step ::
  "XMLElement \<Rightarrow> int option \<Rightarrow> int option \<Rightarrow> string \<Rightarrow> art_state \<Rightarrow> error + art_state" where
  "articulation_step note staff voice art_tag acc =
     (case acc of (notation, xml_articulations, xml_ornaments, st) \<Rightarrow>
        if art_tag = '''' then Inr acc
        else if art_tag = nonote then Inr acc
        else if art_tag = ''fermata''
          then Inr (add_child notation (node ''XMLFermata''), xml_articulations, xml_ornaments, st)
        else if art_tag = ''arpeggiate''
          then Inr (add_child notation (node ''XMLArpeggiate''), xml_articulations, xml_ornaments, st)
        else if art_tag = ''accent''
          then Inr (notation, xml_articulations @ [node ''XMLAccent''], xml_ornaments, st)
        else if art_tag = ''staccato''
          then Inr (notation, xml_articulations @ [node ''XMLStaccato''], xml_ornaments, st)
        else if art_tag = ''staccatissimo''
          then Inr (notation, xml_articulations @ [node ''XMLStaccatissimo''], xml_ornaments, st)
        else if art_tag = ''tenuto''
          then Inr (notation, xml_articulations @ [node ''XMLTenuto''], xml_ornaments, st)
        else if art_tag = ''tremolo''
          then (let (t, st') = toggle_tremolo_state st
                in Inr (notation, xml_articulations,
                        xml_ornaments @
                          [XMLElement ''XMLTremolo'' [(''type'', StrV t)] (Some (IntV 3)) []],
                        st'))
        else if art_tag = ''trill''
          then Inr (notation, xml_articulations, xml_ornaments @ [node ''XMLTrillMark''], st)
        else if art_tag = ''breathMark''
          then Inr (notation, xml_articulations @ [node ''XMLBreathMark''], xml_ornaments, st)
        else if art_tag = ''turn''
          then Inr (notation, xml_articulations, xml_ornaments @ [node ''XMLInvertedTurn''], st)
        else if art_tag = ''caesura''
          then Inr (notation, xml_articulations @ [node ''XMLCaesura''], xml_ornaments, st)
        else if art_tag = ''doit''
          then Inr (notation, xml_articulations @ [node ''XMLDoit''], xml_ornaments, st)
        else if art_tag = ''slurStart''
          then (case (staff, voice) of
                  (Some s, Some v) \<Rightarrow>
                    (let (number, st') = start_slur st s v
                     in Inr (add_child notation
                               (node_attrs ''XMLSlur''
                                  [(''type'', StrV ''start''), (''number'', IntV number)]),
                             xml_articulations, xml_ornaments, st'))
                | _ \<Rightarrow>
                    Inr (add_child notation (node_attrs ''XMLSlur'' [(''type'', StrV ''start'')]),
                         xml_articulations, xml_ornaments, st))
        else if art_tag = ''slurStop''
          then (case (staff, voice) of
                  (Some s, Some v) \<Rightarrow>
                    (case stop_slur st s v of
                       (None, st') \<Rightarrow> Inr (notation, xml_articulations, xml_ornaments, st')
                     | (Some number, st') \<Rightarrow>
                         Inr (add_child notation
                                (node_attrs ''XMLSlur''
                                   [(''type'', StrV ''stop''), (''number'', IntV number)]),
                              xml_articulations, xml_ornaments, st'))
                | _ \<Rightarrow> Inr acc)
        else if art_tag = ''tieStart''
          then (case (staff, voice, tie_key note) of
                  (Some s, Some v, Some (pitch_key, lft)) \<Rightarrow>
                    (let (number, st') = start_tie st s pitch_key lft
                     in Inr (add_child notation
                               (node_attrs ''XMLTied''
                                  [(''type'', StrV ''start''), (''number'', IntV number)]),
                             xml_articulations, xml_ornaments, st'))
                | _ \<Rightarrow>
                    Inr (add_child notation (node_attrs ''XMLTied'' [(''type'', StrV ''start'')]),
                         xml_articulations, xml_ornaments, st))
        else if art_tag = ''tieStop''
          then (case (staff, voice, tie_key note) of
                  (Some s, Some v, Some (pitch_key, lft)) \<Rightarrow>
                    (case stop_tie st s pitch_key lft of
                       (None, st') \<Rightarrow> Inr (notation, xml_articulations, xml_ornaments, st')
                     | (Some number, st') \<Rightarrow>
                         Inr (add_child notation
                                (node_attrs ''XMLTied''
                                   [(''type'', StrV ''stop''), (''number'', IntV number)]),
                              xml_articulations, xml_ornaments, st'))
                | _ \<Rightarrow> Inr acc)
        else Inl ValueError)"

definition build_articulations ::
  "XMLElement \<Rightarrow> string \<Rightarrow> string \<Rightarrow> ConversionState \<Rightarrow> int option \<Rightarrow> int option \<Rightarrow>
   error + XMLElement \<times> ConversionState" where
  "build_articulations note articualations tuplet_mark' st staff voice =
     bind_err
       (fold_err (articulation_step note staff voice) (split_on CHR ''_'' articualations)
          (node ''XMLNotations'', [], [], st))
       (\<lambda>(notation, xml_articulations, xml_ornaments, st').
          (let n1 = (if tuplet_mark' \<noteq> ''''
                     then add_child notation
                            (node_attrs ''XMLTuplet'' [(''type'', StrV tuplet_mark')])
                     else notation);
               n2 = (if length xml_articulations > 0
                     then add_child n1 (add_children (node ''XMLArticulations'') xml_articulations)
                     else n1);
               n3 = (if length xml_ornaments > 0
                     then add_child n2 (add_children (node ''XMLOrnaments'') xml_ornaments)
                     else n2)
           in Inr (add_child note n3, st')))"

section \<open>Notes and chords\<close>

text \<open>The pitch node of \<^verbatim>\<open>build_note_or_rest\<close> for a symbol with a pitch.\<close>

definition build_pitch :: "EncodedSymbol \<Rightarrow> error + XMLElement" where
  "build_pitch model_note =
     bind_err (index_at (pitch model_note) 0) (\<lambda>step_char.
     bind_err (index_at (pitch model_note) 1) (\<lambda>octave_char.
     bind_err (py_int [octave_char]) (\<lambda>octave.
       (let p0 = add_child (add_child (node ''XMLPitch'') (node_value ''XMLStep'' (StrV [step_char])))
                   (node_value ''XMLOctave'' (IntV octave))
        in if lift model_note = nonote then Inr p0
           else if lift model_note \<noteq> empty_token
             then (case LIFT_TO_ALTER (lift model_note) of
                     None \<Rightarrow> Inl KeyError
                   | Some alter \<Rightarrow> Inr (add_child p0 (node_value ''XMLAlter'' (IntV alter))))
           else Inr p0))))"

text \<open>
  \<^verbatim>\<open>build_note_or_rest\<close>, in the order of its blocks: the pitch or rest child, the
  grace marker or the type and duration, then staff, voice, beam and dots, and last the
  time modification and the articulations. The attribute \<^verbatim>\<open>beam\<close> of the symbol is read
  from the table of beam markers.
\<close>

definition note_pitch_or_rest :: "EncodedSymbol \<Rightarrow> XMLElement \<Rightarrow> error + XMLElement" where
  "note_pitch_or_rest model_note note =
     (let model_pitch = pitch model_note;
          model_duration = get_duration model_note
      in if model_pitch = empty_token
         then (if numerator (fraction model_duration) = 0
               then Inr (add_child note (node_attrs ''XMLRest'' [(''measure'', StrV ''yes'')]))
               else Inr (add_child note (node ''XMLRest'')))
         else if model_pitch = nonote then Inr (add_child note (node ''XMLRest''))
         else bind_err (build_pitch model_note) (\<lambda>p. Inr (add_child note p)))"

definition note_type_and_duration ::
  "EncodedSymbol \<Rightarrow> ConversionState \<Rightarrow> XMLElement \<Rightarrow> error + XMLElement" where
  "note_type_and_duration model_note st note =
     (let model_duration = get_duration model_note
      in if contains (rhythm model_note) ''G''
         then (case DURATION_NAMES (kern model_duration) of
                 None \<Rightarrow> Inl KeyError
               | Some duration_name \<Rightarrow>
                   Inr (add_child (add_child note (node ''XMLGrace''))
                          (node_value ''XMLType'' (StrV duration_name))))
         else if numerator (fraction model_duration) > 0
         then (let base_duration = (if kern model_duration = 0 then 1 else kern model_duration)
               in case DURATION_NAMES base_duration of
                    None \<Rightarrow> Inl KeyError
                  | Some duration_name \<Rightarrow>
                      Inr (add_child
                             (add_child note (node_value ''XMLType'' (StrV duration_name)))
                             (node_value ''XMLDuration''
                                (IntV (py_trunc (fraction model_duration * of_int (division st)))))))
         else (case DURATION_NAMES 0 of
                 None \<Rightarrow> Inl KeyError
               | Some duration_name \<Rightarrow>
                   Inr (add_child
                          (add_child note (node_value ''XMLType'' (StrV duration_name)))
                          (node_value ''XMLDuration'' (IntV (beats st))))))"

definition note_staff_voice_beam_dots ::
  "beams \<Rightarrow> EncodedSymbol \<Rightarrow> int \<Rightarrow> bool \<Rightarrow> XMLElement \<Rightarrow> XMLElement" where
  "note_staff_voice_beam_dots b model_note voice is_chord note =
     (let staff_value = get_staff model_note;
          note3 = add_child note (node_value ''XMLStaff'' (IntV staff_value));
          xml_voice = voice + 1;
          note4 = add_child note3 (node_value ''XMLVoice'' (StrV (str_int xml_voice)));
          note5 = (case b (ident model_note) of
                     None \<Rightarrow> note4
                   | Some beam_value \<Rightarrow>
                       if beam_value \<noteq> '''' \<and> \<not> is_chord \<and> is_beamable_note model_note
                       then add_child note4
                              (XMLElement ''XMLBeam'' [(''number'', IntV 1)]
                                 (Some (StrV beam_value)) [])
                       else note4)
      in add_children note5 (replicate (dots (get_duration model_note)) (node ''XMLDot'')))"

definition build_note_or_rest ::
  "beams \<Rightarrow> EncodedSymbol \<Rightarrow> int \<Rightarrow> bool \<Rightarrow> ConversionState \<Rightarrow> string \<Rightarrow>
   error + XMLElement \<times> ConversionState" where
  "build_note_or_rest b model_note voice is_chord st tuplet_mark' =
     (let note0 = (if is_chord then add_child (node ''XMLNote'') (node ''XMLChord'')
                   else node ''XMLNote'');
          model_duration = get_duration model_note
      in bind_err (note_pitch_or_rest model_note note0) (\<lambda>note1.
         bind_err (note_type_and_duration model_note st note1) (\<lambda>note2.
           (let note6 = note_staff_voice_beam_dots b model_note voice is_chord note2;
                staff_value = get_staff model_note;
                xml_voice = voice + 1
            in if actual_notes model_duration \<noteq> normal_notes model_duration
               then (let time_modification =
                           add_child
                             (add_child (node ''XMLTimeModification'')
                                (node_value ''XMLActualNotes'' (IntV (actual_notes model_duration))))
                             (node_value ''XMLNormalNotes'' (IntV (normal_notes model_duration)))
                     in build_articulations (add_child note6 time_modification)
                          (articulation model_note) tuplet_mark' st (Some staff_value)
                          (Some xml_voice))
               else build_articulations note6 (articulation model_note) '''' st
                      (Some staff_value) (Some xml_voice)))))"

text \<open>
  Modelled from the spec: \<^verbatim>\<open>EncodedSymbol.strip_articulations\<close> and
  \<^verbatim>\<open>EncodedSymbol.add_articulations\<close>, methods of the vocabulary module that is not part
  of the sources at hand. Stripping removes the listed tags from the articulation field
  and returns them in their order of occurrence together with the symbol without them (an
  empty field is written as \<^verbatim>\<open>empty\<close>); adding appends tags to the field. Every other
  attribute of the symbol is kept. \<^verbatim>\<open>test_strip_articulations\<close> fixes the behaviour of the
  first on three examples.
\<close>

definition strip_articulations :: "string list \<Rightarrow> EncodedSymbol \<Rightarrow> string list \<times> EncodedSymbol" where
  "strip_articulations to_strip symbol =
     (let parts = filter (\<lambda>a. a \<noteq> '''') (split_on CHR ''_'' (articulation symbol));
          stripped = filter (\<lambda>a. a \<in> set to_strip) parts;
          kept = filter (\<lambda>a. a \<notin> set to_strip) parts
      in (stripped,
          symbol\<lparr>articulation := (if kept = [] then empty_token else join_with ''_'' kept)\<rparr>))"

definition add_articulations :: "EncodedSymbol \<Rightarrow> string list \<Rightarrow> EncodedSymbol" where
  "add_articulations symbol to_add =
     (let parts = filter (\<lambda>a. a \<noteq> '''') (split_on CHR ''_'' (articulation symbol)) @ to_add
      in symbol\<lparr>articulation := (if parts = [] then empty_token else join_with ''_'' parts)\<rparr>)"

text \<open>
  \<^verbatim>\<open>SymbolChord.strip_slur_ties\<close>. The generator pairs each stripped symbol with its
  removed tags through a dictionary keyed by \<^verbatim>\<open>id(symbol)\<close>; here each symbol is paired
  with its tags directly.
\<close>

definition strip_slur_ties :: "SymbolChord \<Rightarrow> (EncodedSymbol \<times> string list) list" where
  "strip_slur_ties c =
     map (\<lambda>symbol.
            (let (stripped, result_symbol) =
                   strip_articulations [''slurStart'', ''slurStop'', ''tieStart'', ''tieStop''] symbol
             in (result_symbol, stripped)))
       (symbols c)"

text \<open>
  \<^verbatim>\<open>_group_notes\<close>: the duration class of a note, and the notes by class in the order in
  which the classes first occur. \<^verbatim>\<open>max\<close> of an empty list raises \<^verbatim>\<open>ValueError\<close>.
\<close>

definition group_key :: "rat \<Rightarrow> EncodedSymbol \<Rightarrow> rat" where
  "group_key max_duration note =
     (let duration = get_duration note;
          is_grace = contains (rhythm note) ''G''
      in if is_grace then 0
         else if numerator (fraction duration) = 0 then max_duration
         else fraction duration)"

definition group_notes ::
  "(EncodedSymbol \<times> string list) list \<Rightarrow> error + (rat \<times> (EncodedSymbol \<times> string list) list) list" where
  "group_notes notes =
     (if notes = [] then Inl ValueError
      else (let max_duration = Max (set (map (\<lambda>n. fraction (get_duration (fst n))) notes));
                keys = rev (remdups (rev (map (\<lambda>n. group_key max_duration (fst n)) notes)))
            in Inr (map (\<lambda>k. (k, filter (\<lambda>n. group_key max_duration (fst n) = k) notes)) keys)))"

definition backup_node :: "int \<Rightarrow> XMLElement" where
  "backup_node ticks = add_child (node ''XMLBackup'') (node_value ''XMLDuration'' (IntV ticks))"

text \<open>The inner loop of \<^verbatim>\<open>build_note_chord\<close> over the notes of one duration class.\<close>

fun build_class_notes ::
  "beams \<Rightarrow> (EncodedSymbol \<times> string list) list \<Rightarrow> int \<Rightarrow> bool \<Rightarrow> string \<Rightarrow> ConversionState \<Rightarrow>
   error + XMLElement list \<times> ConversionState" where
  "build_class_notes b [] voice is_first tm st = Inr ([], st)"
| "build_class_notes b ((note_loop, slur_ties) # rest) voice is_first tm st =
     (let note = (if slur_ties \<noteq> [] then add_articulations note_loop slur_ties else note_loop)
      in bind_err (build_note_or_rest b note voice (\<not> is_first) st tm) (\<lambda>(x, st1).
         bind_err (build_class_notes b rest voice False tm st1) (\<lambda>(xs, st2).
           Inr (x # xs, st2))))"

text \<open>The outer loop over the sorted duration classes, \<^verbatim>\<open>i\<close> counting them.\<close>

fun build_classes ::
  "beams \<Rightarrow> (rat \<times> (EncodedSymbol \<times> string list) list) list \<Rightarrow> nat \<Rightarrow> nat \<Rightarrow> int \<Rightarrow> string \<Rightarrow>
   ConversionState \<Rightarrow> error + XMLElement list \<times> ConversionState" where
  "build_classes b [] i n voice_offset tm st = Inr ([], st)"
| "build_classes b ((group_duration, members) # rest) i n voice_offset tm st =
     bind_err (build_class_notes b members (int i + voice_offset) True tm st) (\<lambda>(xs, st1).
       (let backup = (if int i \<noteq> int n - 1 \<and> group_duration > 0
                      then [backup_node (py_trunc (group_duration * of_int (division st1)))]
                      else [])
        in bind_err (build_classes b rest (i + 1) n voice_offset tm st1) (\<lambda>(ys, st2).
             Inr (xs @ backup @ ys, st2))))"

definition build_note_chord ::
  "beams \<Rightarrow> SymbolChord \<Rightarrow> ConversionState \<Rightarrow> rat \<Rightarrow> error + XMLElement list \<times> ConversionState" where
  "build_note_chord b note_chord st chord_duration =
     bind_err (group_notes (strip_slur_ties note_chord)) (\<lambda>by_duration.
       (let classes = sort_key fst by_duration;
            voice_offset = (if symbols note_chord \<noteq> [] \<and>
                               position (hd (symbols note_chord)) = ''lower'' then 1 else 0)
        in bind_err (build_classes b classes 0 (length by_duration) voice_offset
                       (tuplet_mark note_chord) st) (\<lambda>(result, st1).
             (let final_duration = (if classes = [] then 0 else fst (last classes))
              in if chord_duration < final_duration
                 then Inr (result @
                             [backup_node
                                (py_trunc ((final_duration - chord_duration) * of_int (division st1)))],
                           st1)
                 else Inr (result, st1)))))"

subsection \<open>The time cursor of a measure\<close>

text \<open>
  How far an element moves the time cursor of its measure: a note that is not stacked on
  the preceding one (\<^verbatim>\<open>XMLChord\<close>) moves it forward by its \<^verbatim>\<open>XMLDuration\<close> (a grace note has
  none), a backup moves it back by its \<^verbatim>\<open>XMLDuration\<close>, every other element leaves it.
\<close>

definition duration_value :: "XMLElement \<Rightarrow> int" where
  "duration_value n =
     (case find_child_of_type n ''XMLDuration'' of
        Some d \<Rightarrow> (case xvalue d of Some (IntV v) \<Rightarrow> v | _ \<Rightarrow> 0)
      | None \<Rightarrow> 0)"

definition cursor_delta :: "XMLElement \<Rightarrow> int" where
  "cursor_delta n =
     (if tag n = ''XMLNote''
      then (if find_child_of_type n ''XMLChord'' \<noteq> None then 0 else duration_value n)
      else if tag n = ''XMLBackup'' then - duration_value n
      else 0)"

definition cursor_shift :: "XMLElement list \<Rightarrow> int" where
  "cursor_shift ns = sum_list (map cursor_delta ns)"

text \<open>
  The time advance of a symbol emitted as the first note of its duration class, in ticks:
  nothing for a grace note, the truncated tick value of its fraction for a note or rest of
  positive duration, the measure length \<^verbatim>\<open>beats\<close> for a whole-measure rest.
\<close>

definition advance :: "int \<Rightarrow> int \<Rightarrow> EncodedSymbol \<Rightarrow> int" where
  "advance D B s =
     (if contains (rhythm s) ''G'' then 0
      else if numerator (fraction (get_duration s)) > 0
        then py_trunc (fraction (get_duration s) * of_int D)
      else B)"

text \<open>
  Reading a list of children: whether it holds an \<^verbatim>\<open>XMLChord\<close>, and the value of its first
  \<^verbatim>\<open>XMLDuration\<close>.
\<close>

definition chord_flag :: "XMLElement list \<Rightarrow> bool" where
  "chord_flag cs = (find (\<lambda>c. tag c = ''XMLChord'') cs \<noteq> None)"

definition first_duration :: "XMLElement list \<Rightarrow> int option" where
  "first_duration cs =
     (case find (\<lambda>c. tag c = ''XMLDuration'') cs of
        Some d \<Rightarrow> (case xvalue d of Some (IntV v) \<Rightarrow> Some v | _ \<Rightarrow> Some 0)
      | None \<Rightarrow> None)"


section \<open>Measures\<close>

record XmlGeneratorArguments =
  large_page :: "bool option"
  metronome :: "int option"
  tempo :: "int option"

definition measure_has_musical_content :: "XMLElement \<Rightarrow> bool" where
  "measure_has_musical_content msr =
     list_ex (\<lambda>child. tag child = ''XMLNote'' \<or> tag child = ''XMLBackup'' \<or> tag child = ''XMLForward'')
       (children msr)"

text \<open>
  A node that the driver keeps a reference to while it is a child of the current measure
  (the open attributes block, a barline) is addressed by its index among the children of
  the measure; changing the node replaces the child at that index.
\<close>

definition update_child :: "XMLElement \<Rightarrow> nat \<Rightarrow> XMLElement \<Rightarrow> XMLElement" where
  "update_child parent i c =
     XMLElement (tag parent) (attrs parent) (xvalue parent) ((children parent)[i := c])"

definition child_at :: "XMLElement \<Rightarrow> nat \<Rightarrow> XMLElement" where
  "child_at parent i = children parent ! i"

definition build_or_get_attributes :: "XMLElement \<Rightarrow> nat option \<Rightarrow> bool \<Rightarrow> XMLElement \<times> nat" where
  "build_or_get_attributes msr last_attributes force_new =
     (case last_attributes of
        Some i \<Rightarrow>
          if \<not> force_new \<or> \<not> measure_has_musical_content msr then (msr, i)
          else (add_child msr (node ''XMLAttributes''), length (children msr))
      | None \<Rightarrow> (add_child msr (node ''XMLAttributes''), length (children msr)))"

definition max_staff_number :: "EncodedSymbol list \<Rightarrow> int" where
  "max_staff_number voice = fold (\<lambda>symbol max_staff. max max_staff (get_staff symbol)) voice 1"

definition location_is :: "string \<Rightarrow> XMLElement \<Rightarrow> bool" where
  "location_is location c = (map_of (attrs c) ''location'' = Some (StrV location))"

definition build_or_get_barline :: "XMLElement \<Rightarrow> string \<Rightarrow> XMLElement \<times> nat" where
  "build_or_get_barline msr location =
     (case find (\<lambda>i. tag (child_at msr i) = ''XMLBarline'' \<and> location_is location (child_at msr i))
             [0 ..< length (children msr)] of
        Some i \<Rightarrow> (msr, i)
      | None \<Rightarrow>
          (add_child msr (node_attrs ''XMLBarline'' [(''location'', StrV location)]),
           length (children msr)))"

definition build_key :: "EncodedSymbol \<Rightarrow> XMLElement \<Rightarrow> error + XMLElement" where
  "build_key model_key attributes =
     bind_err (index_at (split_on CHR ''_'' (rhythm model_key)) 1) (\<lambda>circle_of_fifth.
     bind_err (py_int circle_of_fifth) (\<lambda>fifth.
       Inr (add_child attributes
              (add_child (node ''XMLKey'') (node_value ''XMLFifths'' (IntV fifth))))))"

definition build_clef :: "EncodedSymbol \<Rightarrow> XMLElement \<Rightarrow> error + XMLElement" where
  "build_clef model_clef attributes =
     bind_err (index_at (split_on CHR ''_'' (rhythm model_clef)) 1) (\<lambda>sign_and_line.
     bind_err (index_at sign_and_line 0) (\<lambda>sign.
     bind_err (index_at sign_and_line 1) (\<lambda>line.
     bind_err (py_int [line]) (\<lambda>line_no.
       Inr (add_child attributes
              (add_child
                 (add_child (node_attrs ''XMLClef'' [(''number'', IntV (get_staff model_clef))])
                    (node_value ''XMLSign'' (StrV [sign])))
                 (node_value ''XMLLine'' (IntV line_no))))))))"

definition build_time_signature ::
  "EncodedSymbol \<Rightarrow> XMLElement \<Rightarrow> ConversionState \<Rightarrow> error + XMLElement \<times> ConversionState" where
  "build_time_signature model_time_signature attributes st =
     bind_err (index_at (split_on CHR ''/'' (rhythm model_time_signature)) 1) (\<lambda>denominator'.
     bind_err (py_int denominator') (\<lambda>den.
       (let beats' = max (py_trunc (nominator st * of_int den)) 1;
            time = add_child
                     (add_child (node ''XMLTime'') (node_value ''XMLBeats'' (StrV (str_int beats'))))
                     (node_value ''XMLBeatType'' (StrV denominator'))
        in Inr (add_child attributes time, st\<lparr>beats := beats'\<rparr>))))"

definition build_barline_style :: "EncodedSymbol \<Rightarrow> XMLElement \<Rightarrow> XMLElement" where
  "build_barline_style barline xml =
     (let style_value = (if rhythm barline = ''bolddoublebarline'' then ''heavy-heavy''
                         else ''light-light'')
      in add_child xml (node_value ''XMLBarStyle'' (StrV style_value)))"

definition build_barline_ending :: "EncodedSymbol \<Rightarrow> XMLElement \<Rightarrow> int \<Rightarrow> error + XMLElement" where
  "build_barline_ending volta xml volta_number' =
     (if startswith (rhythm volta) ''voltaStart''
      then Inr (add_child xml (node_attrs ''XMLEnding''
                  [(''type'', StrV ''start''), (''number'', StrV (str_int volta_number'))]))
      else if startswith (rhythm volta) ''voltaStop''
      then Inr (add_child xml (node_attrs ''XMLEnding''
                  [(''type'', StrV ''stop''), (''number'', StrV (str_int volta_number'))]))
      else if startswith (rhythm volta) ''voltaDiscontinue''
      then Inr (add_child xml (node_attrs ''XMLEnding''
                  [(''type'', StrV ''discontinue''), (''number'', StrV (str_int volta_number'))]))
      else Inl ValueError)"

text \<open>\<^verbatim>\<open>build_repeat\<close>, applied to the rhythm of the symbol.\<close>

definition build_repeat :: "string \<Rightarrow> XMLElement \<Rightarrow> XMLElement" where
  "build_repeat barline_rhythm xml =
     (if length (get_children_of_type xml ''XMLRepeat'') > 0 then xml
      else (let direction = (if barline_rhythm = ''repeatStart'' then ''forward'' else ''backward'')
            in add_child xml (node_attrs ''XMLRepeat'' [(''direction'', StrV direction)])))"

definition build_multi_measure_rest :: "EncodedSymbol \<Rightarrow> XMLElement \<Rightarrow> error + XMLElement" where
  "build_multi_measure_rest symbol attributes =
     (if length (get_children_of_type attributes ''XMLMeasureStyle'') > 0 then Inr attributes
      else bind_err (index_at (split_on CHR ''_'' (rhythm symbol)) 1) (\<lambda>part.
           bind_err (py_int (filter (\<lambda>c. c \<noteq> CHR ''m'') part)) (\<lambda>duration.
             Inr (add_child attributes
                    (add_child (node ''XMLMeasureStyle'')
                       (node_value ''XMLMultipleRest'' (IntV duration)))))))"

definition build_add_time_direction :: "XmlGeneratorArguments \<Rightarrow> XMLElement option" where
  "build_add_time_direction args =
     (case metronome args of
        None \<Rightarrow> None
      | Some m \<Rightarrow>
          if m = 0 then None
          else (let metronome_node =
                      add_child
                        (add_child (node ''XMLMetronome'') (node_value ''XMLBeatUnit'' (StrV ''quarter'')))
                        (node_value ''XMLPerMinute'' (StrV (str_int m)));
                    direction =
                      add_child (node ''XMLDirection'')
                        (add_child (node ''XMLDirectionType'') metronome_node);
                    sound_tempo = (case tempo args of
                                     None \<Rightarrow> m
                                   | Some t \<Rightarrow> if t = 0 then m else t)
                in Some (add_child direction (node_attrs ''XMLSound'' [(''tempo'', IntV sound_tempo)]))))"

definition build_divisions :: "int \<Rightarrow> XMLElement" where
  "build_divisions dv = node_value ''XMLDivisions'' (IntV (dv div 4))"

definition new_measure :: "int \<Rightarrow> XMLElement" where
  "new_measure measure_number' = node_attrs ''XMLMeasure'' [(''number'', StrV (str_int measure_number'))]"

subsection \<open>The loop of the driver\<close>

text \<open>
  The local variables of \<^verbatim>\<open>build_measures\<close> that change in its loop. \<^verbatim>\<open>attributes\<close> is
  the index of the open attributes block among the children of the current measure.
\<close>

record driver =
  measure_number :: int
  measures :: "XMLElement list"
  current_measure :: XMLElement
  attributes :: "nat option"
  state :: ConversionState

text \<open>The loop over \<^verbatim>\<open>staff_positions\<close> for a chord of notes and rests.\<close>

fun build_positions ::
  "beams \<Rightarrow> SymbolChord list \<Rightarrow> nat \<Rightarrow> nat \<Rightarrow> rat \<Rightarrow> ConversionState \<Rightarrow>
   error + XMLElement list \<times> ConversionState" where
  "build_positions b [] pos_no n chord_duration st = Inr ([], st)"
| "build_positions b (staff_pos # rest) pos_no n chord_duration st =
     (let nominal = (if int pos_no = int n - 1 then chord_duration else 0)
      in bind_err (build_note_chord b staff_pos st nominal) (\<lambda>(xs, st1).
         bind_err (build_positions b rest (pos_no + 1) n chord_duration st1) (\<lambda>(ys, st2).
           Inr (xs @ ys, st2))))"

definition close_measure :: "driver \<Rightarrow> driver" where
  "close_measure d =
     d\<lparr>measures := measures d @ [current_measure d],
       measure_number := measure_number d + 1,
       current_measure := new_measure (measure_number d + 1)\<rparr>"

definition with_barline :: "string \<Rightarrow> (XMLElement \<Rightarrow> XMLElement) \<Rightarrow> XMLElement \<Rightarrow> XMLElement" where
  "with_barline location f msr =
     (let (m, i) = build_or_get_barline msr location
      in update_child m i (f (child_at m i)))"

text \<open>
  One iteration of the loop over the groups. \<^verbatim>\<open>attributes\<close> is saved in
  \<^verbatim>\<open>last_attributes\<close> and reset first; the branches follow the \<^verbatim>\<open>if\<close>/\<open>elif\<close> chain.
\<close>

definition driver_step :: "beams \<Rightarrow> nat \<Rightarrow> nat \<Rightarrow> SymbolChord \<Rightarrow> driver \<Rightarrow> error + driver" where
  "driver_step b n group_no grp d0 =
     bind_err (index_at (symbols grp) 0) (\<lambda>symbol.
       (let r = rhythm symbol;
            last_attributes = attributes d0;
            d = d0\<lparr>attributes := None\<rparr>
        in if startswith r ''note'' \<or> startswith r ''rest''
           then (if length (symbols grp) = 1 \<and> endswith r ''m''
                 then (let (m, i) = build_or_get_attributes (current_measure d) last_attributes False
                       in bind_err (build_multi_measure_rest symbol (child_at m i)) (\<lambda>a.
                            Inr (d\<lparr>current_measure := update_child m i a\<rparr>)))
                 else (let staff_positions = into_positions grp
                       in bind_err (build_positions b staff_positions 0 (length staff_positions)
                                      (chord_get_duration grp) (state d)) (\<lambda>(xs, st1).
                            Inr (d\<lparr>current_measure := add_children (current_measure d) xs,
                                   state := st1\<rparr>))))
           else if r = ''newline''
           then (if int group_no = int n - 1 then Inr d
                 else Inr (d\<lparr>current_measure :=
                              add_child (current_measure d)
                                (node_attrs ''XMLPrint'' [(''new_system'', StrV ''yes'')])\<rparr>))
           else if startswith r ''clef''
           then (let (m, i) = build_or_get_attributes (current_measure d) last_attributes True
                 in bind_err
                      (fold_err (\<lambda>should_be_clef a.
                                   if startswith (rhythm should_be_clef) ''clef''
                                   then build_clef should_be_clef a else Inr a)
                         (symbols grp) (child_at m i)) (\<lambda>a.
                      Inr (d\<lparr>current_measure := update_child m i a, attributes := Some i\<rparr>)))
           else if startswith r ''keySignature''
           then (let (m, i) = build_or_get_attributes (current_measure d) last_attributes False
                 in bind_err (build_key symbol (child_at m i)) (\<lambda>a.
                      Inr (d\<lparr>current_measure := update_child m i a, attributes := Some i\<rparr>)))
           else if startswith r ''timeSignature''
           then (let (m, i) = build_or_get_attributes (current_measure d) last_attributes False
                 in bind_err (build_time_signature symbol (child_at m i) (state d)) (\<lambda>(a, st1).
                      Inr (d\<lparr>current_measure := update_child m i a, attributes := Some i,
                             state := st1\<rparr>)))
           else if contains r ''barline''
           then (let d1 = (if r \<noteq> ''barline''
                           then d\<lparr>current_measure :=
                                    with_barline ''right'' (build_barline_style symbol)
                                      (current_measure d)\<rparr>
                           else d)
                 in Inr (close_measure d1))
           else if r = ''repeatStart''
           then (let d1 = close_measure d
                 in Inr (d1\<lparr>current_measure :=
                              with_barline ''right'' (build_repeat r) (current_measure d1)\<rparr>))
           else if r = ''repeatEnd''
           then Inr (close_measure
                       (d\<lparr>current_measure :=
                            with_barline ''right'' (build_repeat r) (current_measure d)\<rparr>))
           else if r = ''repeatEndStart''
           then (let d1 = close_measure
                            (d\<lparr>current_measure :=
                                 with_barline ''right'' (build_repeat ''repeatEnd'')
                                   (current_measure d)\<rparr>)
                 in Inr (d1\<lparr>current_measure :=
                              with_barline ''right'' (build_repeat ''repeatStart'')
                                (current_measure d1)\<rparr>))
           else if startswith r ''voltaStart''
           then (let (volta_number', st1) = start_volta (state d) (measure_number d);
                     (m, i) = build_or_get_barline (current_measure d) ''left''
                 in bind_err (build_barline_ending symbol (child_at m i) volta_number') (\<lambda>bl.
                      Inr (d\<lparr>current_measure := update_child m i bl, state := st1\<rparr>)))
           else if startswith r ''voltaStop'' \<or> startswith r ''voltaDiscontinue''
           then (let (volta_number', st1) = stop_volta (state d) (measure_number d);
                     (m, i) = build_or_get_barline (current_measure d) ''right''
                 in bind_err (build_barline_ending symbol (child_at m i) volta_number') (\<lambda>bl.
                      Inr (d\<lparr>current_measure := update_child m i bl, state := st1\<rparr>)))
           else Inr d))"

fun driver_loop :: "beams \<Rightarrow> nat \<Rightarrow> nat \<Rightarrow> SymbolChord list \<Rightarrow> driver \<Rightarrow> error + driver" where
  "driver_loop b n group_no [] d = Inr d"
| "driver_loop b n group_no (grp # groups) d =
     bind_err (driver_step b n group_no grp d) (\<lambda>d1. driver_loop b n (group_no + 1) groups d1)"

text \<open>
  The state of the driver before the loop: measure 1 with its first attributes block (the
  divisions, the number of staves when there is more than one) and, for the first part, the
  tempo direction.
\<close>

definition initial_driver ::
  "int \<Rightarrow> XmlGeneratorArguments \<Rightarrow> EncodedSymbol list \<Rightarrow> bool \<Rightarrow> SymbolChord list \<Rightarrow> driver" where
  "initial_driver duration_of_quarter args voice is_first_part groups =
     (let (dv, nom) = find_division_and_time_signature_nominator groups;
          st = ConversionState_init duration_of_quarter dv nom;
          (m0, i) = build_or_get_attributes (new_measure 1) None False;
          a1 = add_child (child_at m0 i) (build_divisions dv);
          max_staff = max_staff_number voice;
          a2 = (if max_staff > 1 then add_child a1 (node_value ''XMLStaves'' (IntV max_staff)) else a1);
          m1 = update_child m0 i a2;
          m2 = (if is_first_part
                then (case build_add_time_direction args of
                        None \<Rightarrow> m1 | Some direction \<Rightarrow> add_child m1 direction)
                else m1)
      in \<lparr>measure_number = 1, measures = [], current_measure = m2, attributes = Some i, state = st\<rparr>)"

text \<open>After the loop: the measure in progress is appended when it has children.\<close>

definition finish_measures :: "driver \<Rightarrow> XMLElement list" where
  "finish_measures d =
     (if length (children (current_measure d)) > 0 then measures d @ [current_measure d]
      else measures d)"

text \<open>
  \<^verbatim>\<open>build_measures\<close>, from the chords that \<^verbatim>\<open>group_into_chords\<close> returns. The symbols
  reach the beaming pass without a beam attribute.
\<close>

definition build_measures_of_groups ::
  "int \<Rightarrow> XmlGeneratorArguments \<Rightarrow> EncodedSymbol list \<Rightarrow> bool \<Rightarrow> SymbolChord list \<Rightarrow>
   error + XMLElement list" where
  "build_measures_of_groups duration_of_quarter args voice is_first_part grouped =
     (let groups = add_tuplet_start_stop grouped;
          b = apply_beaming groups Map.empty
      in bind_err (driver_loop b (length groups) 0 groups
                     (initial_driver duration_of_quarter args voice is_first_part groups))
           (\<lambda>d. Inr (finish_measures d)))"

definition build_measures ::
  "int \<Rightarrow> (EncodedSymbol list \<Rightarrow> EncodedSymbol list list) \<Rightarrow> XmlGeneratorArguments \<Rightarrow>
   EncodedSymbol list \<Rightarrow> bool \<Rightarrow> error + XMLElement list" where
  "build_measures duration_of_quarter sort_token_chords args voice is_first_part =
     build_measures_of_groups duration_of_quarter args voice is_first_part
       (group_into_chords sort_token_chords voice)"

subsection \<open>Example parts for the driver and the emitter\<close>

definition no_arguments :: XmlGeneratorArguments where
  "no_arguments = \<lparr>large_page = None, metronome = None, tempo = None\<rparr>"

text \<open>A quarter note, a barline, and a clef change after the barline.\<close>

definition clef_after_barline :: "SymbolChord list" where
  "clef_after_barline = [chord [quarter 0 ''C5''], barline_chord 1, clef_chord 2]"

text \<open>A quarter note and a barline.\<close>

definition ends_on_barline :: "SymbolChord list" where
  "ends_on_barline = [chord [quarter 0 ''C5''], barline_chord 1]"


text \<open>A note that closes a slur and a tie that were never opened.\<close>

definition plain_note_node :: XMLElement where
  "plain_note_node =
     add_child (node ''XMLNote'')
       (add_child (add_child (node ''XMLPitch'') (node_value ''XMLStep'' (StrV ''C'')))
          (node_value ''XMLOctave'' (IntV 5)))"

text \<open>A driver state whose current measure holds nothing but an attributes block.\<close>

definition attributes_only_driver :: driver where
  "attributes_only_driver =
     \<lparr>measure_number = 2, measures = [new_measure 1],
      current_measure = add_child (new_measure 2) (node ''XMLAttributes''),
      attributes = Some 0, state = ConversionState_init 16 4 1\<rparr>"


section \<open>Properties of the numbering allocator\<close>

text \<open>
  C1 (as stated, refuted): the claim expects each (staff, voice) key to own a slur pool, so
  that two simultaneous slurs on staff 1 and staff 2 both get number 1. The free slur
  numbers are one list for the whole part: after the staff-1 slur took number 1, the
  staff-2 slur does not get number 1.
\<close>

theorem parallel_slurs_not_both_one:
  "fst (start_slur (snd (start_slur (ConversionState_init 16 4 1) 1 1)) 2 2) \<noteq> 1"
  by (simp add: start_slur_def ConversionState_init_def range_1_16_def get_stack_def)

text \<open>
  C1 (amended): slur numbers are allocated from one pool shared by all (staff, voice) keys.
  In a fresh state the first slur start returns 1 and the next slur start returns 2,
  whatever the two keys are; for the scenario of the claim (upper staff: staff 1, voice 1;
  lower staff: staff 2, voice 2) the two stops then return the numbers 1 and 2.
\<close>

theorem parallel_slurs_shared_pool:
  "fst (start_slur (ConversionState_init q d n) staff1 voice1) = 1 \<and>
   fst (start_slur (snd (start_slur (ConversionState_init q d n) staff1 voice1)) staff2 voice2) = 2 \<and>
   (let st0 = ConversionState_init q d n;
        (a, st1) = start_slur st0 1 1;
        (b, st2) = start_slur st1 2 2;
        (c, st3) = stop_slur st2 1 1;
        (e, st4) = stop_slur st3 2 2
    in (a, b, c, e) = (1, 2, Some 1, Some 2))"
  by (simp add: start_slur_def stop_slur_def release_slur_number_def ConversionState_init_def
      range_1_16_def get_stack_def Let_def)

text \<open>
  C2 (the code at the failing input): the pools hold the numbers 1..15, but a released
  number is put back only when it lies in 1..6. After seven allocations from one pool the
  stop returns 7, 7 is not put back, and the next allocation returns 8; this holds for the
  slur pool and for a tie pool alike.
\<close>

theorem release_of_seven_is_lost:
  "(let (ns, s1) = start_slurs 7 (ConversionState_init 16 4 1) 1 1;
        (r, s2) = stop_slur s1 1 1;
        (m, s3) = start_slur s2 1 1
    in (ns, r, m, 7 \<in> set (available_slur_numbers s2))) = ([1, 2, 3, 4, 5, 6, 7], Some 7, 8, False) \<and>
   (let (ns, s1) = start_ties 7 (ConversionState_init 16 4 1) 1 ''C5'' ''1'';
        (r, s2) = stop_tie s1 1 ''C5'' ''1'';
        (m, s3) = start_tie s2 1 ''C5'' ''1''
    in (ns, r, m)) = ([1, 2, 3, 4, 5, 6, 7], Some 7, 8)"
  by (simp add: eval_nat_numeral start_slur_def stop_slur_def release_slur_number_def
      start_tie_def stop_tie_def release_tie_number_def ConversionState_init_def
      range_1_16_def get_stack_def get_available_def Let_def)

section \<open>Properties of the tuplet annotator\<close>

lemmas example_defs = chord_def sym_def plain_def triplet_def barline_chord_def

lemma length_tuplet_loop: "length (tuplet_loop h gs) = length gs"
  by (induction gs arbitrary: h) (simp_all add: Let_def)

lemma tuplet_loop_nth:
  "i < length gs \<Longrightarrow>
   tuplet_loop h gs ! i =
     spec_tuplet_mark (if i = 0 then h else chord_is_tuplet (gs ! (i - 1))) (gs ! i)"
proof (induction gs arbitrary: h i)
  case Nil
  then show ?case by simp
next
  case (Cons g gs)
  show ?case
  proof (cases i)
    case 0
    then show ?thesis by (auto simp: Let_def spec_tuplet_mark_def)
  next
    case (Suc j)
    with Cons.prems have j: "j < length gs" by simp
    have "tuplet_loop h (g # gs) ! i = tuplet_loop (chord_is_tuplet g) gs ! j"
      using Suc by (auto simp: Let_def)
    also have "\<dots> = spec_tuplet_mark
        (if j = 0 then chord_is_tuplet g else chord_is_tuplet (gs ! (j - 1))) (gs ! j)"
      using Cons.IH [OF j] .
    also have "\<dots> = spec_tuplet_mark
        (if i = 0 then h else chord_is_tuplet ((g # gs) ! (i - 1))) ((g # gs) ! i)"
      using Suc by (cases j) simp_all
    finally show ?thesis .
  qed
qed

lemma tuplet_loop_none:
  "\<forall>g \<in> set gs. \<not> chord_is_tuplet g \<Longrightarrow> tuplet_loop False gs = gs"
  by (induction gs) (simp_all add: Let_def)

lemma add_tuplet_start_stop_nth:
  "i < length groups \<Longrightarrow>
   add_tuplet_start_stop groups ! i =
     spec_tuplet_mark (spec_prev_is_tuplet groups i) (groups ! i)"
  by (simp add: add_tuplet_start_stop_def tuplet_loop_nth spec_prev_is_tuplet_def)

text \<open>
  C8: the annotator returns the chords in order, and the chord at every index is the input
  chord stamped as the tuplet law says: \<^verbatim>\<open>start\<close> exactly on a tuplet chord that has no
  tuplet chord right before it, \<^verbatim>\<open>stop\<close> exactly on a non-tuplet chord that has a tuplet
  chord right before it, and no change on any other chord. A part without tuplet chords
  comes back unchanged.
\<close>

theorem tuplet_law:
  "length (add_tuplet_start_stop groups) = length groups \<and>
   (\<forall>i < length groups.
      add_tuplet_start_stop groups ! i =
        spec_tuplet_mark (spec_prev_is_tuplet groups i) (groups ! i)) \<and>
   ((\<forall>g \<in> set groups. \<not> chord_is_tuplet g) \<longrightarrow> add_tuplet_start_stop groups = groups)"
  by (simp add: add_tuplet_start_stop_nth)
     (simp add: add_tuplet_start_stop_def length_tuplet_loop tuplet_loop_none)

theorem tuplet_law_witness:
  "length (add_tuplet_start_stop tuplet_example) = 6 \<and>
   map tuplet_mark (add_tuplet_start_stop tuplet_example) =
     ['''', ''start'', '''', '''', ''stop'', '''']"
proof -
  have len: "length (add_tuplet_start_stop tuplet_example) = 6"
    using tuplet_law [of tuplet_example] by (simp add: tuplet_example_def)
  have marks: "map tuplet_mark (add_tuplet_start_stop tuplet_example) =
     ['''', ''start'', '''', '''', ''stop'', '''']"
    by (simp add: add_tuplet_start_stop_def tuplet_example_def example_defs
        chord_is_tuplet_def is_note_or_rest_def Let_def)
  show ?thesis using len marks by simp
qed




section \<open>Properties of the timing analysis\<close>
















section \<open>Properties of the beaming pass\<close>



lemma scan_symbols_no_note_rest:
  "\<forall>s \<in> set ss. \<not> startswith (rhythm s) ''note'' \<and> \<not> startswith (rhythm s) ''rest'' \<Longrightarrow>
   scan_symbols ss a b = (None, a, b)"
  by (induction ss arbitrary: a b) (auto simp: Let_def is_beamable_note_def)




























lemmas beam_eval = example_defs eighth_def quarter_def clef_chord_def
  beam_breaks_def beam_candidate_def find_staff_chord_def into_positions_def is_barline_def
  is_beamable_note_def beam_step_def finalize_pending_beam_def Let_def


text \<open>
  C5 (as stated, refuted): the pending symbol is an eighth note in a run of length 2 and the
  next chord holds only a clef at that staff position. The claim expects a flush (the
  pending symbol marked \<^verbatim>\<open>end\<close>) and a reset; the step keeps the pending symbol and the
  run length and writes no marker.
\<close>

theorem clef_chord_does_not_flush:
  "fst (beam_step ''upper'' (clef_chord 3) (Some (eighth 2 ''E5''), 2, Map.empty)) \<noteq> None \<and>
   fst (snd (beam_step ''upper'' (clef_chord 3) (Some (eighth 2 ''E5''), 2, Map.empty))) \<noteq> 0 \<and>
   snd (snd (beam_step ''upper'' (clef_chord 3) (Some (eighth 2 ''E5''), 2, Map.empty)))
     (ident (eighth 2 ''E5'')) \<noteq> Some ''end'' \<and>
   finalize_pending_beam (Some (eighth 2 ''E5'')) 2 Map.empty (ident (eighth 2 ''E5'')) =
     Some ''end''"
  by (simp add: beam_eval)

text \<open>
  C5 (amended): during the beaming pass at a fixed staff position, a chord that is not a
  barline and whose sub-chord at that position contains neither a note nor a rest (for
  example only a clef) leaves the pending symbol, the run length and all beam markers as
  they are: the run is neither flushed nor reset and continues across the chord.
\<close>

theorem clef_only_subchord_keeps_run:
  assumes "\<not> is_barline g"
    and "find_staff_chord pos g = Some staff_chord"
    and "\<forall>s \<in> set (symbols staff_chord).
           \<not> startswith (rhythm s) ''note'' \<and> \<not> startswith (rhythm s) ''rest''"
  shows "beam_step pos g (pending, run_length, b) = (pending, run_length, b)"
  using assms by (simp add: beam_step_def scan_symbols_no_note_rest)

theorem clef_only_subchord_keeps_run_witness:
  "beam_step ''upper'' (clef_chord 3) (Some (eighth 2 ''E5''), 2, Map.empty) =
     (Some (eighth 2 ''E5''), 2, Map.empty)"
proof -
  have a: "\<not> is_barline (clef_chord 3)" by (simp add: beam_eval)
  have b: "find_staff_chord ''upper'' (clef_chord 3) = Some (clef_chord 3)"
    by (simp add: beam_eval)
  have c: "\<forall>s \<in> set (symbols (clef_chord 3)).
           \<not> startswith (rhythm s) ''note'' \<and> \<not> startswith (rhythm s) ''rest''"
    by (simp add: beam_eval)
  show ?thesis by (rule clef_only_subchord_keeps_run [OF a b c])
qed





section \<open>Properties of the articulation emitter\<close>

lemma stop_slur_none:
  "open_slurs st (staff, voice) = None \<or> open_slurs st (staff, voice) = Some [] \<Longrightarrow>
   stop_slur st staff voice = (None, st)"
  by (auto simp: stop_slur_def)

lemma stop_tie_none:
  "open_ties st (staff, p, l) = None \<or> open_ties st (staff, p, l) = Some [] \<Longrightarrow>
   stop_tie st staff p l = (None, st)"
  by (auto simp: stop_tie_def)

lemma step_slur_stop:
  "stop_slur st staff voice = (None, st) \<Longrightarrow>
   articulation_step note (Some staff) (Some voice) ''slurStop'' (notation, arts, orns, st) =
     Inr (notation, arts, orns, st)"
  by (simp add: articulation_step_def nonote_def)

lemma step_tie_stop:
  "tie_key note = Some (p, l) \<Longrightarrow> stop_tie st staff p l = (None, st) \<Longrightarrow>
   articulation_step note (Some staff) (Some voice) ''tieStop'' (notation, arts, orns, st) =
     Inr (notation, arts, orns, st)"
  by (simp add: articulation_step_def nonote_def)

lemma split_slurStop: "split_on CHR ''_'' ''slurStop'' = [''slurStop'']" by simp
lemma split_tieStop: "split_on CHR ''_'' ''tieStop'' = [''tieStop'']" by simp

text \<open>
  C9: a stop on a (staff, voice) key without an open slur, or on a (staff, pitch, accidental)
  key without an open tie, returns no number and leaves the state as it is; the emitter then
  adds no closing slur or tie element to the notations of the note. For a note whose only
  articulation is the unmatched stop the notations node stays empty.
\<close>

theorem unmatched_stop_is_omitted:
  "((open_slurs st (staff, voice) = None \<or> open_slurs st (staff, voice) = Some []) \<longrightarrow>
      stop_slur st staff voice = (None, st) \<and>
      articulation_step note (Some staff) (Some voice) ''slurStop'' (notation, arts, orns, st) =
        Inr (notation, arts, orns, st) \<and>
      build_articulations note ''slurStop'' '''' st (Some staff) (Some voice) =
        Inr (add_child note (node ''XMLNotations''), st)) \<and>
   ((tie_key note = Some (p, l) \<and>
     (open_ties st (staff, p, l) = None \<or> open_ties st (staff, p, l) = Some [])) \<longrightarrow>
      stop_tie st staff p l = (None, st) \<and>
      articulation_step note (Some staff) (Some voice) ''tieStop'' (notation, arts, orns, st) =
        Inr (notation, arts, orns, st) \<and>
      build_articulations note ''tieStop'' '''' st (Some staff) (Some voice) =
        Inr (add_child note (node ''XMLNotations''), st))"
proof (intro conjI impI)
  assume a: "open_slurs st (staff, voice) = None \<or> open_slurs st (staff, voice) = Some []"
  show s: "stop_slur st staff voice = (None, st)" by (rule stop_slur_none [OF a])
  show "articulation_step note (Some staff) (Some voice) ''slurStop'' (notation, arts, orns, st) =
        Inr (notation, arts, orns, st)" by (rule step_slur_stop [OF s])
  show "build_articulations note ''slurStop'' '''' st (Some staff) (Some voice) =
        Inr (add_child note (node ''XMLNotations''), st)"
    by (simp add: build_articulations_def split_slurStop step_slur_stop [OF s] bind_err_def)
next
  assume a: "tie_key note = Some (p, l) \<and>
     (open_ties st (staff, p, l) = None \<or> open_ties st (staff, p, l) = Some [])"
  then have k: "tie_key note = Some (p, l)" by simp
  show s: "stop_tie st staff p l = (None, st)" using a by (simp add: stop_tie_none)
  show "articulation_step note (Some staff) (Some voice) ''tieStop'' (notation, arts, orns, st) =
        Inr (notation, arts, orns, st)" by (rule step_tie_stop [OF k s])
  show "build_articulations note ''tieStop'' '''' st (Some staff) (Some voice) =
        Inr (add_child note (node ''XMLNotations''), st)"
    by (simp add: build_articulations_def split_tieStop step_tie_stop [OF k s] bind_err_def)
qed

lemma tie_key_plain_note_node: "tie_key plain_note_node = Some (''C5'', ''0'')"
  by (simp add: tie_key_def plain_note_node_def find_child_of_type_def add_child_def node_def node_value_def xval_str_def str_int_def str_nat.simps)

theorem unmatched_stop_is_omitted_witness:
  "build_articulations plain_note_node ''slurStop'' '''' (ConversionState_init 16 4 1) (Some 1) (Some 1) =
     Inr (add_child plain_note_node (node ''XMLNotations''), ConversionState_init 16 4 1) \<and>
   build_articulations plain_note_node ''tieStop'' '''' (ConversionState_init 16 4 1) (Some 1) (Some 1) =
     Inr (add_child plain_note_node (node ''XMLNotations''), ConversionState_init 16 4 1)"
proof -
  have a: "open_slurs (ConversionState_init 16 4 1) (1, 1) = None" by (simp add: ConversionState_init_def)
  have b: "open_ties (ConversionState_init 16 4 1) (1, ''C5'', ''0'') = None" by (simp add: ConversionState_init_def)
  show ?thesis
    using unmatched_stop_is_omitted [of "ConversionState_init 16 4 1" 1 1 plain_note_node
        "node ''XMLNotations''" "[]" "[]" "''C5''" "''0''"] a b tie_key_plain_note_node
    by simp
qed


section \<open>Properties of the measure driver\<close>

text \<open>
  C4 (as stated, refuted): a quarter note, a barline and a clef change. The measure in
  progress after the last chord holds one attributes block (the clef) and no musical
  content, and it is appended as the second measure of the part.
\<close>

theorem trailing_clef_measure_is_appended:
  "(case build_measures_of_groups 16 no_arguments (all_symbols clef_after_barline) True
           clef_after_barline of
      Inl e \<Rightarrow> []
    | Inr ms \<Rightarrow> map (\<lambda>m. (map tag (children m), measure_has_musical_content m)) ms) =
   [([''XMLAttributes'', ''XMLNote''], True), ([''XMLAttributes''], False)]"
  by code_simp

lemma driver_loop_snoc:
  "driver_loop b n k (gs @ [g]) d =
     bind_err (driver_loop b n k gs d) (driver_step b n (k + length gs) g)"
  by (induction gs arbitrary: k d) (auto simp: bind_err_def split: sum.splits)

lemma driver_step_plain_barline:
  "symbols g \<noteq> [] \<Longrightarrow> rhythm (hd (symbols g)) = ''barline'' \<Longrightarrow>
   driver_step b n k g d = Inr (close_measure (d\<lparr>attributes := None\<rparr>))"
  by (cases "symbols g") (simp_all add: driver_step_def index_at_def bind_err_def Let_def)

lemma children_new_measure: "children (new_measure k) = []"
  by (simp add: new_measure_def node_attrs_def)

lemma musical_content_children:
  "measure_has_musical_content m \<Longrightarrow> children m \<noteq> []"
  by (auto simp: measure_has_musical_content_def)

text \<open>
  C4 (amended): after the last chord the measure in progress is appended if and only if it
  has at least one child, of whatever kind. A measure with musical content is therefore
  appended, and so is a measure that holds only an attributes block. The measure is left
  out exactly when it is empty, as it is when the part ends on a plain barline.
\<close>

theorem trailing_measure_appended_iff_nonempty:
  "(finish_measures d = measures d @ [current_measure d] \<longleftrightarrow> children (current_measure d) \<noteq> []) \<and>
   (finish_measures d = measures d \<longleftrightarrow> children (current_measure d) = []) \<and>
   (measure_has_musical_content (current_measure d) \<longrightarrow>
      finish_measures d = measures d @ [current_measure d]) \<and>
   (symbols g \<noteq> [] \<and> rhythm (hd (symbols g)) = ''barline'' \<and>
    driver_loop b n k (gs @ [g]) d0 = Inr d \<longrightarrow>
      children (current_measure d) = [] \<and> finish_measures d = measures d \<and> measures d \<noteq> [])"
proof (intro conjI impI)
  show "finish_measures d = measures d @ [current_measure d] \<longleftrightarrow> children (current_measure d) \<noteq> []"
    by (simp add: finish_measures_def)
  show "finish_measures d = measures d \<longleftrightarrow> children (current_measure d) = []"
    by (simp add: finish_measures_def)
  show "finish_measures d = measures d @ [current_measure d]"
    if "measure_has_musical_content (current_measure d)"
    using musical_content_children [OF that] by (simp add: finish_measures_def)
next
  assume a: "symbols g \<noteq> [] \<and> rhythm (hd (symbols g)) = ''barline'' \<and>
    driver_loop b n k (gs @ [g]) d0 = Inr d"
  then obtain d1 where d1: "driver_loop b n k gs d0 = Inr d1"
    and st: "driver_step b n (k + length gs) g d1 = Inr d"
    by (auto simp: driver_loop_snoc bind_err_def split: sum.splits)
  from a st have d: "d = close_measure (d1\<lparr>attributes := None\<rparr>)"
    by (simp add: driver_step_plain_barline)
  show "children (current_measure d) = []"
    by (simp add: d close_measure_def children_new_measure)
  then show "finish_measures d = measures d" by (simp add: finish_measures_def)
  show "measures d \<noteq> []" by (simp add: d close_measure_def)
qed


theorem trailing_measure_appended_iff_nonempty_witness:
  "finish_measures attributes_only_driver =
     [new_measure 1, add_child (new_measure 2) (node ''XMLAttributes'')] \<and>
   \<not> measure_has_musical_content (current_measure attributes_only_driver) \<and>
   finish_measures (close_measure (attributes_only_driver\<lparr>attributes := None\<rparr>)) =
     [new_measure 1, add_child (new_measure 2) (node ''XMLAttributes'')]"
proof -
  have ne: "children (current_measure attributes_only_driver) \<noteq> []"
    by (simp add: attributes_only_driver_def add_child_def)
  have a: "finish_measures attributes_only_driver =
      measures attributes_only_driver @ [current_measure attributes_only_driver]"
    using trailing_measure_appended_iff_nonempty [of attributes_only_driver] ne by blast
  have nm: "\<not> measure_has_musical_content (current_measure attributes_only_driver)"
    by (simp add: attributes_only_driver_def measure_has_musical_content_def add_child_def
        new_measure_def node_attrs_def node_def)
  have g: "symbols (barline_chord 1) \<noteq> [] \<and> rhythm (hd (symbols (barline_chord 1))) = ''barline''"
    by (simp add: barline_chord_def chord_def sym_def)
  have loop: "driver_loop Map.empty 1 0 ([] @ [barline_chord 1]) attributes_only_driver =
      Inr (close_measure (attributes_only_driver\<lparr>attributes := None\<rparr>))"
    using g by (simp add: driver_step_plain_barline bind_err_def)
  have b: "finish_measures (close_measure (attributes_only_driver\<lparr>attributes := None\<rparr>)) =
      measures (close_measure (attributes_only_driver\<lparr>attributes := None\<rparr>))"
    using trailing_measure_appended_iff_nonempty
      [of "close_measure (attributes_only_driver\<lparr>attributes := None\<rparr>)" "barline_chord 1"
        Map.empty 1 0 "[]" attributes_only_driver] g loop
    by blast
  show ?thesis
    using a b nm by (simp add: close_measure_def attributes_only_driver_def)
qed

section \<open>Properties of the note and chord emitter\<close>

lemma tag_add_child [simp]: "tag (add_child p c) = tag p"
  by (simp add: add_child_def)

lemma children_add_child [simp]: "children (add_child p c) = children p @ [c]"
  by (simp add: add_child_def)

lemma add_children_shape [simp]:
  "tag (add_children p cs) = tag p \<and> children (add_children p cs) = children p @ cs"
  unfolding add_children_def by (induction cs arbitrary: p) simp_all

lemma node_simps [simp]:
  "tag (node t) = t" "children (node t) = []"
  "tag (node_value t v) = t" "children (node_value t v) = []" "xvalue (node_value t v) = Some v"
  "tag (node_attrs t as) = t" "children (node_attrs t as) = []"
  by (simp_all add: node_def node_value_def node_attrs_def)


lemma find_replicate_none: "\<not> P x \<Longrightarrow> find P (replicate n x) = None"
  by (induction n) simp_all













lemma chord_flag_simps [simp]:
  "chord_flag [] = False"
  "chord_flag (c # cs) = (tag c = ''XMLChord'' \<or> chord_flag cs)"
  by (auto simp: chord_flag_def)

lemma first_duration_simps [simp]:
  "first_duration [] = None"
  "first_duration (c # cs) =
     (if tag c = ''XMLDuration''
      then (case xvalue c of Some (IntV v) \<Rightarrow> Some v | _ \<Rightarrow> Some 0)
      else first_duration cs)"
  by (auto simp: first_duration_def)

lemma first_duration_replicate_dot [simp]:
  "first_duration (replicate k (node ''XMLDot'')) = None"
  by (induction k) simp_all

lemma chord_flag_replicate_dot [simp]:
  "chord_flag (replicate k (node ''XMLDot'')) = False"
  by (induction k) simp_all





lemma cursor_shift_simps [simp]:
  "cursor_shift [] = 0"
  "cursor_shift (x # xs) = cursor_delta x + cursor_shift xs"
  "cursor_shift (xs @ ys) = cursor_shift xs + cursor_shift ys"
  by (simp_all add: cursor_shift_def)

lemma cursor_delta_backup [simp]: "cursor_delta (backup_node t) = - t"
  by (simp add: cursor_delta_def backup_node_def duration_value_def find_child_of_type_def)

lemma advance_add_articulations [simp]:
  "advance D B (add_articulations s a) = advance D B s"
  by (simp add: advance_def add_articulations_def Let_def)







lemma group_key_cong:
  "rhythm a = rhythm b \<Longrightarrow> get_duration a = get_duration b \<Longrightarrow>
   group_key maxd a = group_key maxd b"
  by (simp add: group_key_def)







end
